theory Spec2Isabelle
  imports Complex_Main
begin

section \<open>The print kiosk of raspberry\_pi\_kiosk.py\<close>

text \<open>
  The kiosk is one Python class, \<open>PrintKiosk\<close>, whose methods mutate the object's
  fields, the scratch files on disk and the queue of callbacks handed to the Tk main loop.
  The model passes that state explicitly. What the environment decides (the clock, whether
  a write succeeds, what the spooler answers) is a parameter of the operation concerned.
  Widget layout, colours and animations leave no trace in the modelled state.
\<close>

subsection \<open>Python values\<close>

text \<open>
  Every handler of the kiosk catches \<open>Exception\<close> and reads nothing of what it caught
  but \<open>str(e)\<close>. An exception is therefore kept as that text: \<open>Exception msg\<close> is an
  exception that prints as \<open>msg\<close>, whatever its class.
\<close>

datatype exn = Exception string

fun str_exn :: "exn \<Rightarrow> string" where
  "str_exn (Exception msg) = msg"

text \<open>
  The one exception a dictionary lookup of the kiosk itself can raise, \<open>KeyError('job-state')\<close>:
  a \<open>KeyError\<close> prints as the \<open>repr\<close> of its key, here the key between single quotes.
\<close>

definition KeyError_job_state :: exn where
  "KeyError_job_state = Exception ([CHR 0x27] @ ''job-state'' @ [CHR 0x27])"

text \<open>\<open>str\<close> of a Python integer: decimal digits, a minus sign before a negative one.\<close>

definition digit_char :: "nat \<Rightarrow> char" where
  "digit_char d =
     (if d = 0 then CHR ''0'' else if d = 1 then CHR ''1'' else if d = 2 then CHR ''2''
      else if d = 3 then CHR ''3'' else if d = 4 then CHR ''4'' else if d = 5 then CHR ''5''
      else if d = 6 then CHR ''6'' else if d = 7 then CHR ''7'' else if d = 8 then CHR ''8''
      else CHR ''9'')"

fun str_nat :: "nat \<Rightarrow> string" where
  "str_nat n = (if n < 10 then [digit_char n] else str_nat (n div 10) @ [digit_char (n mod 10)])"

definition str_int :: "int \<Rightarrow> string" where
  "str_int i = (if i < 0 then CHR ''-'' # str_nat (nat (- i)) else str_nat (nat i))"

text \<open>\<open>int(x)\<close> of a float: truncation towards zero.\<close>

definition int_of_float :: "real \<Rightarrow> int" where
  "int_of_float x = (if 0 \<le> x then \<lfloor>x\<rfloor> else \<lceil>x\<rceil>)"

text \<open>
  \<open>os.path.join(a, b)\<close> on POSIX: an absolute \<open>b\<close> replaces \<open>a\<close>; otherwise the
  two are joined by one slash, none being added after an empty \<open>a\<close> or one that ends
  in a slash.
\<close>

definition path_join :: "string \<Rightarrow> string \<Rightarrow> string" where
  "path_join a b =
     (if b \<noteq> [] \<and> hd b = CHR ''/'' then b
      else if a = [] \<or> last a = CHR ''/'' then a @ b
      else a @ ''/'' @ b)"

subsection \<open>Configuration and state\<close>

definition PRINTER_NAME :: string where
  "PRINTER_NAME = ''HP_LaserJet_M208dw''"

text \<open>The text \<open>show_preview\<close> puts into the custom-range entry.\<close>

definition placeholder :: string where
  "placeholder = ''e.g. 1-3,5''"

record print_settings =
  page_range :: string
  orientation :: string
  duplex :: string

text \<open>
  What leaves a handler: a callback scheduled with \<open>root.after\<close>, a modal error box, a
  line printed to the console, or the one call that submits a job to the spooler. A
  scheduled \<open>lambda\<close> whose free variables stay bound (\<open>job_id\<close>, \<open>file\<close>,
  \<open>filesize\<close>) is recorded with their values. The \<open>lambda\<close> that the \<open>except\<close> clause of
  \<open>do_print\<close> schedules reads the variable \<open>e\<close> of that clause when it is called, and
  Python unbinds \<open>e\<close> where the clause ends: \<open>Show_error_str_e title\<close> is that callback,
  \<open>messagebox.showerror(title, str(e))\<close> with \<open>e\<close> still to be read.
\<close>

datatype effect =
    Status_label string
  | Progress_label string
  | Show_error string string
  | Show_error_str_e string
  | Show_welcome
  | Show_success
  | Show_file_confirmation string nat
  | Print_file string "string option" string "(string \<times> string) list"
  | Log string

type_synonym image = string

record kiosk =
  current_screen :: string
  current_file :: "string option"
  preview_images :: "image list"
  current_page :: int
  print_settings :: print_settings
  files :: "string \<rightharpoonup> string"
  scheduled :: "effect list"

text \<open>
  \<open>files\<close> is the file system as far as the kiosk touches it (path to content);
  \<open>scheduled\<close> collects the effects in the order they are issued.
\<close>

definition init :: "(string \<rightharpoonup> string) \<Rightarrow> kiosk" where
  "init fs =
     \<lparr> current_screen = ''welcome'', current_file = None, preview_images = [],
       current_page = 0,
       print_settings = \<lparr> page_range = ''all'', orientation = ''portrait'', duplex = ''none'' \<rparr>,
       files = fs, scheduled = [] \<rparr>"

subsection \<open>Screens\<close>

definition show_welcome :: "kiosk \<Rightarrow> kiosk" where
  "show_welcome k = k\<lparr>current_screen := ''welcome''\<rparr>"

definition show_file_confirmation :: "string \<Rightarrow> nat \<Rightarrow> kiosk \<Rightarrow> kiosk" where
  "show_file_confirmation filename filesize k = k\<lparr>current_screen := ''confirmation''\<rparr>"

definition show_printing :: "kiosk \<Rightarrow> kiosk" where
  "show_printing k = k\<lparr>current_screen := ''printing''\<rparr>"

definition show_success :: "kiosk \<Rightarrow> kiosk" where
  "show_success k = k\<lparr>current_screen := ''success''\<rparr>"

text \<open>
  \<open>show_preview\<close>: the parameter is what \<open>convert_from_path\<close> does on the active file,
  the page images or an exception. A missing file and a failed conversion both show an
  error box and go back to the welcome screen, leaving the preview fields as they were.
\<close>

definition show_preview :: "exn + image list \<Rightarrow> kiosk \<Rightarrow> kiosk" where
  "show_preview converted k =
     (let k1 = k\<lparr>current_screen := ''preview''\<rparr> in
      case current_file k1 of
        None \<Rightarrow> show_welcome (k1\<lparr>scheduled := scheduled k1 @ [Show_error ''Error'' ''File not found'']\<rparr>)
      | Some p \<Rightarrow>
          if p = [] \<or> p \<notin> dom (files k1)
          then show_welcome (k1\<lparr>scheduled := scheduled k1 @ [Show_error ''Error'' ''File not found'']\<rparr>)
          else (case converted of
                  Inl e \<Rightarrow>
                    show_welcome (k1\<lparr>scheduled := scheduled k1 @
                      [Show_error ''Error'' (''Could not preview file: '' @ str_exn e)]\<rparr>)
                | Inr images \<Rightarrow> k1\<lparr>preview_images := images, current_page := 0\<rparr>))"

definition prev_page :: "kiosk \<Rightarrow> kiosk" where
  "prev_page k = (if current_page k > 0 then k\<lparr>current_page := current_page k - 1\<rparr> else k)"

definition next_page :: "kiosk \<Rightarrow> kiosk" where
  "next_page k =
     (if current_page k < int (length (preview_images k)) - 1
      then k\<lparr>current_page := current_page k + 1\<rparr> else k)"

subsection \<open>Collecting the settings\<close>

text \<open>The Tk variables of the options panel, as \<open>start_printing\<close> reads them.\<close>

record panel =
  page_range_var :: string
  custom_range :: string
  orientation_var :: string
  duplex_var :: string

definition start_printing :: "panel \<Rightarrow> kiosk \<Rightarrow> kiosk" where
  "start_printing w k =
     (let pr = (if page_range_var w = ''custom''
                then (if custom_range w = ''e.g. 1-3,5'' then ''all'' else custom_range w)
                else ''all'')
      in show_printing
           (k\<lparr>print_settings :=
                \<lparr> page_range = pr, orientation = orientation_var w, duplex = duplex_var w \<rparr>\<rparr>))"

subsection \<open>Submitting and polling\<close>

text \<open>
  The options dictionary of \<open>do_print\<close>, keys in the order they are inserted; each key is
  inserted at most once.
\<close>

definition cups_options :: "print_settings \<Rightarrow> (string \<times> string) list" where
  "cups_options ps =
     (if page_range ps \<noteq> ''all'' then [(''page-ranges'', page_range ps)] else [])
     @ [(''orientation-requested'', if orientation ps = ''landscape'' then ''4'' else ''3'')]
     @ [(''sides'',
          if duplex ps = ''long'' then ''two-sided-long-edge''
          else if duplex ps = ''short'' then ''two-sided-short-edge''
          else ''one-sided'')]"

text \<open>
  The spooler: whether a connection was made at start-up, what \<open>printFile\<close> answers (a job
  identifier or an exception), and what the \<open>n\<close>-th call of \<open>getJobs\<close> answers (a
  dictionary from job identifiers to attribute dictionaries, or an exception).
\<close>

type_synonym jobs = "int \<rightharpoonup> (string \<rightharpoonup> int)"

record spooler =
  cups_conn :: bool
  printFile :: "string \<Rightarrow> string option \<Rightarrow> string \<Rightarrow> (string \<times> string) list \<Rightarrow> exn + int"
  getJobs :: "nat \<Rightarrow> exn + jobs"

text \<open>
  The \<open>while True\<close> loop of \<open>do_print\<close> from the \<open>n\<close>-th poll on. It ends normally when the
  job is no longer listed or its state is 9, with an exception when the state is 8, when
  \<open>getJobs\<close> raises or when the job has no \<open>job-state\<close>; a spooler that lists the job in
  another state for ever keeps it running, which is the value \<open>None\<close>.
\<close>

partial_function (option) monitor :: "(nat \<Rightarrow> exn + jobs) \<Rightarrow> int \<Rightarrow> nat \<Rightarrow> (exn + unit) option" where
  "monitor polls job_id n =
     (case polls n of
        Inl e \<Rightarrow> Some (Inl e)
      | Inr js \<Rightarrow>
          (case js job_id of
             None \<Rightarrow> Some (Inr ())
           | Some attrs \<Rightarrow>
               (case attrs ''job-state'' of
                  None \<Rightarrow> Some (Inl KeyError_job_state)
                | Some job_state \<Rightarrow>
                    if job_state = 9 then Some (Inr ())
                    else if job_state = 8 then Some (Inl (Exception ''Print job cancelled''))
                    else monitor polls job_id (Suc n))))"

text \<open>The \<open>except\<close> clause of \<open>do_print\<close>.\<close>

definition print_error :: "exn \<Rightarrow> effect list" where
  "print_error e =
     [Log (''Print error: '' @ str_exn e), Show_error_str_e ''Print Error'', Show_welcome]"

text \<open>
  \<open>do_print\<close> runs on a worker thread and changes no field; its result is the sequence of
  effects it issues, or \<open>None\<close> when the polling loop never ends. The pictographs that
  open the two progress texts are left out of the strings.
\<close>

definition do_print :: "spooler \<Rightarrow> kiosk \<Rightarrow> effect list option" where
  "do_print sp k =
     (let start = [Status_label ''Sending to printer...'',
                   Progress_label ''Communicating with HP LaserJet''] in
      if \<not> cups_conn sp
      then Some (start @ print_error (Exception ''CUPS connection not available''))
      else
        let options = cups_options (print_settings k);
            submit = Print_file PRINTER_NAME (current_file k) ''Print Job'' options
        in case printFile sp PRINTER_NAME (current_file k) ''Print Job'' options of
             Inl e \<Rightarrow> Some (start @ [submit] @ print_error e)
           | Inr job_id \<Rightarrow>
               (let printing = [Status_label ''Printing...'',
                                Progress_label (''Job ID: '' @ str_int job_id)] in
                case monitor (getJobs sp) job_id 0 of
                  None \<Rightarrow> None
                | Some (Inl e) \<Rightarrow> Some (start @ [submit] @ printing @ print_error e)
                | Some (Inr u) \<Rightarrow> Some (start @ [submit] @ printing @ [Show_success])))"

text \<open>The main loop running what was scheduled for it, in order.\<close>

fun run_effect :: "effect \<Rightarrow> kiosk \<Rightarrow> kiosk" where
  "run_effect Show_welcome k = show_welcome k"
| "run_effect Show_success k = show_success k"
| "run_effect (Show_file_confirmation filename filesize) k = show_file_confirmation filename filesize k"
| "run_effect e k = k"

definition run_effects :: "effect list \<Rightarrow> kiosk \<Rightarrow> kiosk" where
  "run_effects es k = fold run_effect es k"

text \<open>
  What the user gets to see of an error when the main loop calls what was scheduled.
  \<open>e_var\<close> is what the variable \<open>e\<close> of \<open>do_print\<close> holds at the moment of the call: the
  exception as long as the \<open>except\<close> clause is running, nothing once it has ended. Reading
  the unbound name raises \<open>NameError\<close> inside the callback; Tk reports that on the console
  and no box appears.
\<close>

datatype shown = Error_box string string | Raised_NameError string

fun shown_by :: "exn option \<Rightarrow> effect \<Rightarrow> shown list" where
  "shown_by e_var (Show_error title msg) = [Error_box title msg]"
| "shown_by e_var (Show_error_str_e title) =
     (case e_var of
        None \<Rightarrow> [Raised_NameError ''e'']
      | Some e \<Rightarrow> [Error_box title (str_exn e)])"
| "shown_by e_var eff = []"

definition main_loop_shows :: "exn option \<Rightarrow> effect list \<Rightarrow> shown list" where
  "main_loop_shows e_var es = concat (map (shown_by e_var) es)"

subsection \<open>Receiving a file\<close>

record file_part =
  filename :: string
  content :: string

datatype reply = Success string string | Failure string

type_synonym response = "reply \<times> nat"

text \<open>
  \<open>receive_file\<close>: \<open>temp_dir\<close> is what \<open>tempfile.gettempdir()\<close> returns, \<open>now\<close> the clock
  reading of \<open>time.time()\<close>, \<open>save_error\<close> the exception \<open>file.save\<close> raises, if any,
  \<open>request_files\<close> the file parts of the request by field name. A reply without an
  explicit status goes out with 200.
\<close>

definition stored_path :: "string \<Rightarrow> real \<Rightarrow> string \<Rightarrow> string" where
  "stored_path temp_dir now name =
     path_join temp_dir (''print_'' @ str_int (int_of_float now) @ ''_'' @ name)"

definition receive_file ::
  "string \<Rightarrow> real \<Rightarrow> exn option \<Rightarrow> (string \<rightharpoonup> file_part) \<Rightarrow> kiosk \<Rightarrow> response \<times> kiosk" where
  "receive_file temp_dir now save_error request_files k =
     (case request_files ''file'' of
        None \<Rightarrow> ((Failure ''No file provided'', 400), k)
      | Some file \<Rightarrow>
          if filename file = [] then ((Failure ''Empty filename'', 400), k)
          else
            let filepath = stored_path temp_dir now (filename file) in
            (case save_error of
               Some e \<Rightarrow>
                 ((Failure (str_exn e), 500),
                  k\<lparr>scheduled := scheduled k @ [Log (''Error receiving file: '' @ str_exn e)]\<rparr>)
             | None \<Rightarrow>
                 let k1 = k\<lparr>files := (files k)(filepath \<mapsto> content file)\<rparr>;
                     filesize = length (content file);
                     k2 = k1\<lparr>current_file := Some filepath\<rparr>;
                     k3 = k2\<lparr>scheduled := scheduled k2 @ [Show_file_confirmation (filename file) filesize]\<rparr>
                 in ((Success ''File received'' (filename file), 200), k3)))"

text \<open>
  \<open>cleanup\<close>, run when the window is closed: \<open>removed\<close> says whether \<open>os.remove\<close>
  succeeds; its exception is swallowed.
\<close>

definition cleanup :: "bool \<Rightarrow> kiosk \<Rightarrow> kiosk" where
  "cleanup removed k =
     (case current_file k of
        None \<Rightarrow> k
      | Some p \<Rightarrow>
          if p \<noteq> [] \<and> p \<in> dom (files k) \<and> removed
          then k\<lparr>files := (files k)(p := None)\<rparr>
          else k)"

subsection \<open>Spooler behaviours and reachable states\<close>

text \<open>
  What one poll can show of a job: still listed in a state other than 9 and 8
  (\<open>pending\<close>), no longer listed (\<open>unlisted\<close>), or listed with a given state code
  (\<open>reported\<close>).
\<close>

definition pending :: "(nat \<Rightarrow> exn + jobs) \<Rightarrow> int \<Rightarrow> nat \<Rightarrow> bool" where
  "pending polls job_id n =
     (case polls n of
        Inl e \<Rightarrow> False
      | Inr js \<Rightarrow>
          (case js job_id of
             None \<Rightarrow> False
           | Some attrs \<Rightarrow>
               (case attrs ''job-state'' of
                  None \<Rightarrow> False
                | Some job_state \<Rightarrow> job_state \<noteq> 9 \<and> job_state \<noteq> 8)))"

definition unlisted :: "(nat \<Rightarrow> exn + jobs) \<Rightarrow> int \<Rightarrow> nat \<Rightarrow> bool" where
  "unlisted polls job_id n = (case polls n of Inl e \<Rightarrow> False | Inr js \<Rightarrow> js job_id = None)"

definition reported :: "(nat \<Rightarrow> exn + jobs) \<Rightarrow> int \<Rightarrow> nat \<Rightarrow> int \<Rightarrow> bool" where
  "reported polls job_id n code =
     (case polls n of
        Inl e \<Rightarrow> False
      | Inr js \<Rightarrow>
          (case js job_id of None \<Rightarrow> False | Some attrs \<Rightarrow> attrs ''job-state'' = Some code))"

fun is_submission :: "effect \<Rightarrow> bool" where
  "is_submission (Print_file printer file title options) = True"
| "is_submission e = False"

text \<open>The states the kiosk can be in: the initial one and whatever the operations make of it.\<close>

inductive reachable :: "kiosk \<Rightarrow> bool" where
  r_init: "reachable (init fs)"
| r_welcome: "reachable k \<Longrightarrow> reachable (show_welcome k)"
| r_confirmation: "reachable k \<Longrightarrow> reachable (show_file_confirmation name filesize k)"
| r_preview: "reachable k \<Longrightarrow> reachable (show_preview converted k)"
| r_prev: "reachable k \<Longrightarrow> reachable (prev_page k)"
| r_next: "reachable k \<Longrightarrow> reachable (next_page k)"
| r_printing: "reachable k \<Longrightarrow> reachable (start_printing w k)"
| r_success: "reachable k \<Longrightarrow> reachable (show_success k)"
| r_receive: "reachable k \<Longrightarrow> reachable (snd (receive_file temp_dir now save_error request_files k))"
| r_cleanup: "reachable k \<Longrightarrow> reachable (cleanup removed k)"

definition page_index_ok :: "kiosk \<Rightarrow> bool" where
  "page_index_ok k =
     (0 \<le> current_page k \<and>
      (1 \<le> length (preview_images k) \<longrightarrow>
         current_page k \<le> int (length (preview_images k)) - 1))"

subsection \<open>The page-range grammar of the specification\<close>

text \<open>
  The source has no function that reads a page-range expression. The definitions of this
  subsection follow the words of the specification instead (comma-separated tokens, each a
  1-based integer or an inclusive range \<open>a-b\<close> with \<open>a \<le> b\<close>, every page within
  \<open>[1, total_pages]\<close>; \<open>all\<close>, the empty string and the placeholder mean every page). They
  give the pages an expression names in the order it names them, and serve to read the
  text the code hands to the spooler.
\<close>

fun split_at :: "char \<Rightarrow> string \<Rightarrow> string list" where
  "split_at c [] = [[]]"
| "split_at c (x # xs) =
     (if x = c then [] # split_at c xs
      else (case split_at c xs of [] \<Rightarrow> [[x]] | t # ts \<Rightarrow> (x # t) # ts))"

definition digit_value :: "char \<Rightarrow> nat option" where
  "digit_value c = map_of (zip ''0123456789'' [0, 1, 2, 3, 4, 5, 6, 7, 8, 9]) c"

fun number_from :: "nat \<Rightarrow> string \<Rightarrow> nat option" where
  "number_from acc [] = Some acc"
| "number_from acc (c # cs) =
     (case digit_value c of None \<Rightarrow> None | Some d \<Rightarrow> number_from (10 * acc + d) cs)"

definition spec_number :: "string \<Rightarrow> nat option" where
  "spec_number s = (if s = [] then None else number_from 0 s)"

definition spec_token :: "nat \<Rightarrow> string \<Rightarrow> nat list option" where
  "spec_token total_pages tok =
     (case split_at CHR ''-'' tok of
        [a] \<Rightarrow>
          (case spec_number a of
             None \<Rightarrow> None
           | Some x \<Rightarrow> if 1 \<le> x \<and> x \<le> total_pages then Some [x] else None)
      | [a, b] \<Rightarrow>
          (case spec_number a of
             None \<Rightarrow> None
           | Some x \<Rightarrow>
               (case spec_number b of
                  None \<Rightarrow> None
                | Some y \<Rightarrow> if 1 \<le> x \<and> x \<le> y \<and> y \<le> total_pages then Some [x..<Suc y] else None))
      | _ \<Rightarrow> None)"

fun spec_tokens :: "nat \<Rightarrow> string list \<Rightarrow> nat list option" where
  "spec_tokens total_pages [] = Some []"
| "spec_tokens total_pages (t # ts) =
     (case spec_token total_pages t of
        None \<Rightarrow> None
      | Some ps \<Rightarrow> (case spec_tokens total_pages ts of None \<Rightarrow> None | Some qs \<Rightarrow> Some (ps @ qs)))"

definition spec_written_pages :: "string \<Rightarrow> nat \<Rightarrow> nat list option" where
  "spec_written_pages e total_pages =
     (if e = ''all'' \<or> e = [] \<or> e = placeholder then Some [1..<Suc total_pages]
      else spec_tokens total_pages (split_at CHR '','' e))"


declare str_nat.simps [simp del]

section \<open>Properties\<close>

subsection \<open>The polling loop\<close>

lemma monitor_pending: "pending polls j n \<Longrightarrow> monitor polls j n = monitor polls j (Suc n)"
  by (subst monitor.simps) (auto simp add: pending_def split: sum.splits option.splits)

lemma monitor_skip:
  "(\<forall>i<m. pending polls j (n + i)) \<Longrightarrow> monitor polls j n = monitor polls j (n + m)"
proof (induction m arbitrary: n)
  case 0
  show ?case by simp
next
  case (Suc m)
  from Suc.prems have first: "pending polls j n"
    by (metis add.right_neutral zero_less_Suc)
  have rest: "\<forall>i<m. pending polls j (Suc n + i)"
  proof (intro allI impI)
    fix i assume "i < m"
    then have "Suc i < Suc m" by simp
    with Suc.prems have "pending polls j (n + Suc i)" by blast
    then show "pending polls j (Suc n + i)" by simp
  qed
  have "monitor polls j n = monitor polls j (Suc n)"
    using first by (rule monitor_pending)
  also have "\<dots> = monitor polls j (Suc n + m)"
    using rest by (rule Suc.IH)
  finally show ?case by simp
qed

lemma monitor_from_start:
  "\<forall>i<n. pending polls j i \<Longrightarrow> monitor polls j 0 = monitor polls j n"
  using monitor_skip [of n polls j 0] by simp

lemma monitor_unlisted: "unlisted polls j n \<Longrightarrow> monitor polls j n = Some (Inr ())"
  by (subst monitor.simps) (auto simp add: unlisted_def split: sum.splits)

lemma monitor_completed: "reported polls j n 9 \<Longrightarrow> monitor polls j n = Some (Inr ())"
  by (subst monitor.simps) (auto simp add: reported_def split: sum.splits option.splits)

lemma monitor_cancelled:
  "reported polls j n 8 \<Longrightarrow> monitor polls j n = Some (Inl (Exception ''Print job cancelled''))"
  by (subst monitor.simps) (auto simp add: reported_def split: sum.splits option.splits)

text \<open>
  Claim C5. When the spooler lists the job in states other than 9 and 8 for the first
  \<open>n\<close> polls and at poll \<open>n\<close> either no longer lists it or reports state 9, \<open>do_print\<close>
  returns, its last effect is the success screen, and running its effects leaves the kiosk
  on the success screen.
\<close>

theorem do_print_completed:
  assumes conn: "cups_conn sp"
    and accepted: "printFile sp PRINTER_NAME (current_file k) ''Print Job''
                     (cups_options (print_settings k)) = Inr job_id"
    and before: "\<forall>i<n. pending (getJobs sp) job_id i"
    and final: "unlisted (getJobs sp) job_id n \<or> reported (getJobs sp) job_id n 9"
  shows "do_print sp k =
           Some [Status_label ''Sending to printer...'',
                 Progress_label ''Communicating with HP LaserJet'',
                 Print_file PRINTER_NAME (current_file k) ''Print Job'' (cups_options (print_settings k)),
                 Status_label ''Printing...'',
                 Progress_label (''Job ID: '' @ str_int job_id),
                 Show_success]
         \<and> (\<forall>es. do_print sp k = Some es \<longrightarrow> current_screen (run_effects es k') = ''success'')"
proof -
  have "monitor (getJobs sp) job_id n = Some (Inr ())"
    using final monitor_unlisted monitor_completed by blast
  then have m: "monitor (getJobs sp) job_id 0 = Some (Inr ())"
    using monitor_from_start [OF before] by simp
  have d: "do_print sp k =
           Some [Status_label ''Sending to printer...'',
                 Progress_label ''Communicating with HP LaserJet'',
                 Print_file PRINTER_NAME (current_file k) ''Print Job'' (cups_options (print_settings k)),
                 Status_label ''Printing...'',
                 Progress_label (''Job ID: '' @ str_int job_id),
                 Show_success]"
    using conn accepted m by (simp add: do_print_def)
  show ?thesis
    unfolding d by (simp add: run_effects_def show_success_def)
qed

theorem do_print_completed_witness:
  "do_print
     \<lparr>cups_conn = True, printFile = (\<lambda>printer file title options. Inr 7),
      getJobs = (\<lambda>n. if n < 2 then Inr [7 \<mapsto> [''job-state'' \<mapsto> 5]] else Inr Map.empty)\<rparr>
     (init Map.empty)
   = Some [Status_label ''Sending to printer...'',
           Progress_label ''Communicating with HP LaserJet'',
           Print_file ''HP_LaserJet_M208dw'' None ''Print Job''
             [(''orientation-requested'', ''3''), (''sides'', ''one-sided'')],
           Status_label ''Printing...'',
           Progress_label ''Job ID: 7'',
           Show_success]"
  using do_print_completed [of
      "\<lparr>cups_conn = True, printFile = (\<lambda>printer file title options. Inr 7),
        getJobs = (\<lambda>n. if n < 2 then Inr [7 \<mapsto> [''job-state'' \<mapsto> 5]] else Inr Map.empty)\<rparr>"
      "init Map.empty" 7 2]
  by (simp add: pending_def unlisted_def init_def cups_options_def PRINTER_NAME_def
      str_int_def str_nat.simps digit_char_def)

text \<open>
  Claim C7. A spooler accepts the job as number 7, lists it in state 5 at the first two
  polls and in state 8 at the third. \<open>do_print\<close> returns: it has submitted the job once,
  printed the error on the console and scheduled the error callback and the welcome screen,
  not the success screen, and the main loop ends on the welcome screen. The error box
  itself depends on when the main loop calls the callback. Called while the \<open>except\<close>
  clause is still running it shows \<open>Print job cancelled\<close>; called after the clause has
  ended, where \<open>e\<close> is unbound, it raises \<open>NameError\<close> and the user is shown no error.
\<close>

theorem do_print_cancelled_error_lost:
  "\<exists>es. do_print
           \<lparr>cups_conn = True, printFile = (\<lambda>printer file title options. Inr 7),
            getJobs = (\<lambda>n. if n < 2 then Inr [7 \<mapsto> [''job-state'' \<mapsto> 5]]
                            else Inr [7 \<mapsto> [''job-state'' \<mapsto> 8]])\<rparr>
           (init Map.empty) = Some es
        \<and> es = [Status_label ''Sending to printer...'',
                Progress_label ''Communicating with HP LaserJet'',
                Print_file ''HP_LaserJet_M208dw'' None ''Print Job''
                  [(''orientation-requested'', ''3''), (''sides'', ''one-sided'')],
                Status_label ''Printing...'',
                Progress_label ''Job ID: 7'',
                Log ''Print error: Print job cancelled'',
                Show_error_str_e ''Print Error'',
                Show_welcome]
        \<and> main_loop_shows None es = [Raised_NameError ''e'']
        \<and> main_loop_shows (Some (Exception ''Print job cancelled'')) es
            = [Error_box ''Print Error'' ''Print job cancelled'']
        \<and> Show_success \<notin> set es
        \<and> length (filter is_submission es) = 1
        \<and> current_screen (run_effects es (show_printing (init Map.empty))) = ''welcome''"
proof -
  let ?polls = "\<lambda>n::nat. if n < 2 then Inr [7 \<mapsto> [''job-state'' \<mapsto> 5]]
                          else (Inr [7 \<mapsto> [''job-state'' \<mapsto> 8]] :: exn + jobs)"
  have "monitor ?polls 7 2 = Some (Inl (Exception ''Print job cancelled''))"
    by (rule monitor_cancelled) (simp add: reported_def)
  moreover have "monitor ?polls 7 0 = monitor ?polls 7 2"
    by (rule monitor_from_start) (simp add: pending_def)
  ultimately have m: "monitor ?polls 7 0 = Some (Inl (Exception ''Print job cancelled''))"
    by simp
  show ?thesis
    by (simp add: do_print_def m print_error_def init_def cups_options_def PRINTER_NAME_def
        str_int_def str_nat.simps digit_char_def main_loop_shows_def run_effects_def
        show_welcome_def show_printing_def)
qed

subsection \<open>Spooler options\<close>

text \<open>
  Claim C6. For the settings landscape, long-edge duplex and page range \<open>all\<close> the
  options are exactly the landscape code 4 and \<open>two-sided-long-edge\<close>, with no
  \<open>page-ranges\<close> key; for any settings the \<open>page-ranges\<close> key is absent exactly when the
  page range is \<open>all\<close>; and these options are what \<open>do_print\<close> submits.
\<close>

theorem cups_options_landscape_long:
  "cups_options \<lparr>page_range = ''all'', orientation = ''landscape'', duplex = ''long''\<rparr>
     = [(''orientation-requested'', ''4''), (''sides'', ''two-sided-long-edge'')]
   \<and> (\<forall>ps. (map_of (cups_options ps) ''page-ranges'' = None) = (page_range ps = ''all''))
   \<and> (\<forall>sp k es. cups_conn sp \<longrightarrow> do_print sp k = Some es \<longrightarrow>
          Print_file PRINTER_NAME (current_file k) ''Print Job'' (cups_options (print_settings k))
            \<in> set es)"
proof (intro conjI allI impI)
  show "cups_options \<lparr>page_range = ''all'', orientation = ''landscape'', duplex = ''long''\<rparr>
          = [(''orientation-requested'', ''4''), (''sides'', ''two-sided-long-edge'')]"
    by (simp add: cups_options_def)
next
  fix ps
  show "(map_of (cups_options ps) ''page-ranges'' = None) = (page_range ps = ''all'')"
    by (simp add: cups_options_def)
next
  fix sp k es
  assume "cups_conn sp" and "do_print sp k = Some es"
  then show "Print_file PRINTER_NAME (current_file k) ''Print Job''
               (cups_options (print_settings k)) \<in> set es"
    by (auto simp add: do_print_def Let_def split: sum.splits option.splits)
qed

theorem cups_options_landscape_long_witness:
  "Print_file PRINTER_NAME None ''Print Job''
     [(''orientation-requested'', ''4''), (''sides'', ''two-sided-long-edge'')]
   \<in> set (the (do_print
       \<lparr>cups_conn = True, printFile = (\<lambda>printer file title options. Inr 7),
        getJobs = (\<lambda>n. Inr Map.empty)\<rparr>
       (start_printing \<lparr>page_range_var = ''all'', custom_range = ''e.g. 1-3,5'',
          orientation_var = ''landscape'', duplex_var = ''long''\<rparr> (init Map.empty))))"
proof -
  let ?sp = "\<lparr>cups_conn = True, printFile = (\<lambda>printer file title options. Inr 7),
        getJobs = (\<lambda>n. Inr Map.empty)\<rparr> :: spooler"
  let ?k = "start_printing \<lparr>page_range_var = ''all'', custom_range = ''e.g. 1-3,5'',
          orientation_var = ''landscape'', duplex_var = ''long''\<rparr> (init Map.empty)"
  have settings: "print_settings ?k = \<lparr>page_range = ''all'', orientation = ''landscape'', duplex = ''long''\<rparr>"
    and active: "current_file ?k = None"
    by (simp_all add: start_printing_def show_printing_def init_def Let_def)
  have "monitor (getJobs ?sp) 7 0 = Some (Inr ())"
    by (rule monitor_unlisted) (simp add: unlisted_def)
  then have "\<exists>es. do_print ?sp ?k = Some es"
    by (simp add: do_print_def Let_def)
  then obtain es where es: "do_print ?sp ?k = Some es" by blast
  have conn: "cups_conn ?sp" by simp
  have "Print_file PRINTER_NAME (current_file ?k) ''Print Job'' (cups_options (print_settings ?k))
          \<in> set es"
    using cups_options_landscape_long conn es by blast
  then show ?thesis
    using es by (simp add: settings active cups_options_def)
qed

text \<open>
  Claim C10. With the custom option selected and the entry still holding the placeholder
  \<open>e.g. 1-3,5\<close>, the collected settings have page range \<open>all\<close> and the options carry no
  \<open>page-ranges\<close> key.
\<close>

theorem placeholder_prints_all:
  assumes "page_range_var w = ''custom''" and "custom_range w = placeholder"
  shows "page_range (print_settings (start_printing w k)) = ''all''
    \<and> map_of (cups_options (print_settings (start_printing w k))) ''page-ranges'' = None"
  using assms by (simp add: start_printing_def show_printing_def cups_options_def placeholder_def)

theorem placeholder_prints_all_witness:
  "page_range (print_settings (start_printing
      \<lparr>page_range_var = ''custom'', custom_range = ''e.g. 1-3,5'', orientation_var = ''portrait'',
       duplex_var = ''none''\<rparr> (init Map.empty))) = ''all''"
  using placeholder_prints_all [of
      "\<lparr>page_range_var = ''custom'', custom_range = ''e.g. 1-3,5'', orientation_var = ''portrait'',
        duplex_var = ''none''\<rparr>" "init Map.empty"]
  by (simp add: placeholder_def)

subsection \<open>Rejected uploads\<close>

text \<open>
  Claim C4. A request without a \<open>file\<close> part, or whose \<open>file\<close> part has an empty
  filename, is answered with a failure and status 400, and the kiosk state is unchanged:
  no file written, the active document as before, nothing scheduled.
\<close>

theorem receive_file_invalid_upload:
  assumes "request_files ''file'' = None
           \<or> (\<exists>file. request_files ''file'' = Some file \<and> filename file = [])"
  shows "\<exists>msg. receive_file temp_dir now save_error request_files k = ((Failure msg, 400), k)"
  using assms by (auto simp add: receive_file_def)

theorem receive_file_invalid_upload_witness:
  "receive_file ''/tmp'' 100 None Map.empty (init Map.empty)
     = ((Failure ''No file provided'', 400), init Map.empty)
   \<and> receive_file ''/tmp'' 100 None [''file'' \<mapsto> \<lparr>filename = [], content = ''abc''\<rparr>] (init Map.empty)
     = ((Failure ''Empty filename'', 400), init Map.empty)"
proof -
  have a: "\<exists>msg. receive_file ''/tmp'' 100 None Map.empty (init Map.empty)
             = ((Failure msg, 400), init Map.empty)"
    by (rule receive_file_invalid_upload) simp
  have b: "\<exists>msg. receive_file ''/tmp'' 100 None [''file'' \<mapsto> \<lparr>filename = [], content = ''abc''\<rparr>]
               (init Map.empty)
             = ((Failure msg, 400), init Map.empty)"
    by (rule receive_file_invalid_upload) simp
  from a b show ?thesis by (simp add: receive_file_def)
qed

subsection \<open>The preview page index\<close>

text \<open>
  Claim C9. In every state the kiosk can reach the page index is not negative, and when
  there is at least one preview image it is at most the number of images minus one.
\<close>

theorem page_index_bounded: "reachable k \<Longrightarrow> page_index_ok k"
proof (induction rule: reachable.induct)
  case (r_init fs)
  show ?case by (simp add: page_index_ok_def init_def)
next
  case (r_welcome k)
  then show ?case by (simp add: page_index_ok_def show_welcome_def)
next
  case (r_confirmation k name filesize)
  then show ?case by (simp add: page_index_ok_def show_file_confirmation_def)
next
  case (r_preview k converted)
  then show ?case
    by (auto simp add: page_index_ok_def show_preview_def show_welcome_def Let_def
        split: option.splits sum.splits)
next
  case (r_prev k)
  then show ?case by (auto simp add: page_index_ok_def prev_page_def)
next
  case (r_next k)
  then show ?case by (auto simp add: page_index_ok_def next_page_def)
next
  case (r_printing k w)
  then show ?case by (simp add: page_index_ok_def start_printing_def show_printing_def)
next
  case (r_success k)
  then show ?case by (simp add: page_index_ok_def show_success_def)
next
  case (r_receive k temp_dir now save_error request_files)
  then show ?case
    by (auto simp add: page_index_ok_def receive_file_def Let_def split: option.splits)
next
  case (r_cleanup k removed)
  then show ?case by (auto simp add: page_index_ok_def cleanup_def split: option.splits)
qed

theorem page_index_bounded_witness:
  "page_index_ok
     (next_page (next_page (next_page (prev_page
        (show_preview (Inr [''page1'', ''page2''])
           (snd (receive_file ''/tmp'' 100 None
                   [''file'' \<mapsto> \<lparr>filename = ''a.pdf'', content = ''abc''\<rparr>] (init Map.empty))))))))
   \<and> current_page
     (next_page (next_page (next_page (prev_page
        (show_preview (Inr [''page1'', ''page2''])
           (snd (receive_file ''/tmp'' 100 None
                   [''file'' \<mapsto> \<lparr>filename = ''a.pdf'', content = ''abc''\<rparr>] (init Map.empty)))))))) = 1"
proof -
  let ?k = "next_page (next_page (next_page (prev_page
        (show_preview (Inr [''page1'', ''page2''])
           (snd (receive_file ''/tmp'' 100 None
                   [''file'' \<mapsto> \<lparr>filename = ''a.pdf'', content = ''abc''\<rparr>] (init Map.empty)))))))"
  have "reachable ?k"
    by (intro reachable.intros)
  then have "page_index_ok ?k"
    by (rule page_index_bounded)
  moreover have "current_page ?k = 1"
    by (simp add: next_page_def prev_page_def show_preview_def receive_file_def init_def
        stored_path_def path_join_def Let_def)
  ultimately show ?thesis by simp
qed

subsection \<open>Page ranges\<close>




text \<open>
  Claim C2, as the code has it. No entry of the custom field is rejected: nothing between
  \<open>start_printing\<close> and the call of \<open>printFile\<close> reads the expression, so there is no
  \<open>InvalidRange\<close> failure. Whatever the panel holds, when the spooler accepts the job and
  the polling loop ends normally, \<open>do_print\<close> ends with the success screen; a custom entry
  other than the placeholder and \<open>all\<close> heads the submitted options unchanged.
\<close>

theorem range_never_rejected:
  assumes conn: "cups_conn sp"
    and accepted: "printFile sp PRINTER_NAME (current_file k) ''Print Job''
                     (cups_options (print_settings (start_printing w k))) = Inr job_id"
    and polled: "monitor (getJobs sp) job_id 0 = Some (Inr ())"
  shows "do_print sp (start_printing w k) =
           Some [Status_label ''Sending to printer...'',
                 Progress_label ''Communicating with HP LaserJet'',
                 Print_file PRINTER_NAME (current_file k) ''Print Job''
                   (cups_options (print_settings (start_printing w k))),
                 Status_label ''Printing...'',
                 Progress_label (''Job ID: '' @ str_int job_id),
                 Show_success]
         \<and> (page_range_var w = ''custom'' \<and> custom_range w \<noteq> placeholder
              \<and> custom_range w \<noteq> ''all'' \<longrightarrow>
            hd (cups_options (print_settings (start_printing w k)))
              = (''page-ranges'', custom_range w))"
proof -
  have active: "current_file (start_printing w k) = current_file k"
    by (simp add: start_printing_def show_printing_def Let_def)
  have "do_print sp (start_printing w k) =
           Some [Status_label ''Sending to printer...'',
                 Progress_label ''Communicating with HP LaserJet'',
                 Print_file PRINTER_NAME (current_file k) ''Print Job''
                   (cups_options (print_settings (start_printing w k))),
                 Status_label ''Printing...'',
                 Progress_label (''Job ID: '' @ str_int job_id),
                 Show_success]"
    using conn accepted polled by (simp add: do_print_def active)
  moreover have "page_range_var w = ''custom'' \<and> custom_range w \<noteq> placeholder
              \<and> custom_range w \<noteq> ''all'' \<longrightarrow>
            hd (cups_options (print_settings (start_printing w k)))
              = (''page-ranges'', custom_range w)"
    by (simp add: start_printing_def show_printing_def cups_options_def placeholder_def)
  ultimately show ?thesis by simp
qed

theorem range_never_rejected_witness:
  "do_print
     \<lparr>cups_conn = True, printFile = (\<lambda>printer file title options. Inr 7),
      getJobs = (\<lambda>n. Inr Map.empty)\<rparr>
     (start_printing \<lparr>page_range_var = ''custom'', custom_range = ''1-10'',
        orientation_var = ''portrait'', duplex_var = ''none''\<rparr> (init Map.empty))
   = Some [Status_label ''Sending to printer...'',
           Progress_label ''Communicating with HP LaserJet'',
           Print_file ''HP_LaserJet_M208dw'' None ''Print Job''
             [(''page-ranges'', ''1-10''), (''orientation-requested'', ''3''),
              (''sides'', ''one-sided'')],
           Status_label ''Printing...'',
           Progress_label ''Job ID: 7'',
           Show_success]"
proof -
  let ?sp = "\<lparr>cups_conn = True, printFile = (\<lambda>printer file title options. Inr 7),
      getJobs = (\<lambda>n. Inr Map.empty)\<rparr> :: spooler"
  have polled: "monitor (getJobs ?sp) 7 0 = Some (Inr ())"
    by (rule monitor_unlisted) (simp add: unlisted_def)
  show ?thesis
    using range_never_rejected [of ?sp "init Map.empty"
        "\<lparr>page_range_var = ''custom'', custom_range = ''1-10'',
          orientation_var = ''portrait'', duplex_var = ''none''\<rparr>" 7] polled
    by (simp add: start_printing_def show_printing_def init_def cups_options_def
        PRINTER_NAME_def str_int_def str_nat.simps digit_char_def)
qed

text \<open>
  The claim as stated fails on \<open>3-2\<close> for a document of 5 pages: the grammar of the
  specification gives the expression no pages, yet the kiosk submits it as written and the
  job ends on the success screen.
\<close>

theorem range_never_rejected_counterexample:
  "spec_written_pages ''3-2'' 5 = None
   \<and> do_print
       \<lparr>cups_conn = True, printFile = (\<lambda>printer file title options. Inr 7),
        getJobs = (\<lambda>n. Inr Map.empty)\<rparr>
       (start_printing \<lparr>page_range_var = ''custom'', custom_range = ''3-2'',
          orientation_var = ''portrait'', duplex_var = ''none''\<rparr> (init Map.empty))
     = Some [Status_label ''Sending to printer...'',
             Progress_label ''Communicating with HP LaserJet'',
             Print_file ''HP_LaserJet_M208dw'' None ''Print Job''
               [(''page-ranges'', ''3-2''), (''orientation-requested'', ''3''),
                (''sides'', ''one-sided'')],
             Status_label ''Printing...'',
             Progress_label ''Job ID: 7'',
             Show_success]"
proof -
  let ?sp = "\<lparr>cups_conn = True, printFile = (\<lambda>printer file title options. Inr 7),
      getJobs = (\<lambda>n. Inr Map.empty)\<rparr> :: spooler"
  have polled: "monitor (getJobs ?sp) 7 0 = Some (Inr ())"
    by (rule monitor_unlisted) (simp add: unlisted_def)
  have "spec_written_pages ''3-2'' 5 = None"
    by (simp add: spec_written_pages_def placeholder_def spec_token_def spec_number_def
        digit_value_def)
  then show ?thesis
    using polled
    by (simp add: do_print_def start_printing_def show_printing_def init_def cups_options_def
        PRINTER_NAME_def str_int_def str_nat.simps digit_char_def)
qed

subsection \<open>Stored paths\<close>

lemma digit_char_code: "(of_char (digit_char d) :: nat) = 48 + min d 9"
proof -
  consider "d = 0" | "d = 1" | "d = 2" | "d = 3" | "d = 4" | "d = 5" | "d = 6" | "d = 7"
    | "d = 8" | "9 \<le> d"
    by linarith
  then show ?thesis
    by cases (simp_all add: digit_char_def)
qed

lemma digit_char_not_sign: "digit_char d \<noteq> CHR ''_''" "digit_char d \<noteq> CHR ''-''"
proof -
  have "(of_char (digit_char d) :: nat) \<noteq> of_char CHR ''_''"
    and "(of_char (digit_char d) :: nat) \<noteq> of_char CHR ''-''"
    by (simp_all add: digit_char_code)
  then show "digit_char d \<noteq> CHR ''_''" and "digit_char d \<noteq> CHR ''-''"
    by auto
qed

lemma digit_char_inj:
  assumes "d < 10" and "d' < 10" and "digit_char d = digit_char d'"
  shows "d = d'"
proof -
  from assms(3) have "(of_char (digit_char d) :: nat) = of_char (digit_char d')" by simp
  then have "min d 9 = min d' 9" by (simp add: digit_char_code)
  with assms(1,2) show ?thesis by simp
qed

lemma str_nat_digits: "set (str_nat n) \<subseteq> range digit_char"
proof (induction n rule: str_nat.induct)
  case (1 n)
  show ?case
  proof (cases "n < 10")
    case True
    then have "str_nat n = [digit_char n]" by (simp add: str_nat.simps)
    then show ?thesis by simp
  next
    case False
    then have "str_nat n = str_nat (n div 10) @ [digit_char (n mod 10)]"
      by (subst str_nat.simps) simp
    then show ?thesis using 1 [OF False] by simp
  qed
qed

lemma str_nat_not_sign: "CHR ''_'' \<notin> set (str_nat n)" "CHR ''-'' \<notin> set (str_nat n)"
proof -
  have "CHR ''_'' \<notin> range digit_char" and "CHR ''-'' \<notin> range digit_char"
    using digit_char_not_sign by (metis rangeE)+
  then show "CHR ''_'' \<notin> set (str_nat n)" and "CHR ''-'' \<notin> set (str_nat n)"
    using str_nat_digits [of n] by blast+
qed

lemma str_nat_length: "0 < length (str_nat n)"
  by (subst str_nat.simps) simp

lemma str_nat_inj: "str_nat n = str_nat m \<Longrightarrow> n = m"
proof (induction n arbitrary: m rule: str_nat.induct)
  case (1 n)
  show ?case
  proof (cases "n < 10")
    case small_n: True
    then have n: "str_nat n = [digit_char n]" by (simp add: str_nat.simps)
    show ?thesis
    proof (cases "m < 10")
      case True
      then have "str_nat m = [digit_char m]" by (simp add: str_nat.simps)
      with n 1(2) have "digit_char n = digit_char m" by simp
      then show ?thesis using small_n True by (rule digit_char_inj [rotated 2])
    next
      case False
      then have "str_nat m = str_nat (m div 10) @ [digit_char (m mod 10)]"
        by (subst str_nat.simps) simp
      then have "1 < length (str_nat m)" using str_nat_length [of "m div 10"] by simp
      with n 1(2) show ?thesis by simp
    qed
  next
    case big_n: False
    then have n: "str_nat n = str_nat (n div 10) @ [digit_char (n mod 10)]"
      by (subst str_nat.simps) simp
    show ?thesis
    proof (cases "m < 10")
      case True
      then have "str_nat m = [digit_char m]" by (simp add: str_nat.simps)
      moreover have "1 < length (str_nat n)" using n str_nat_length [of "n div 10"] by simp
      ultimately show ?thesis using 1(2) by simp
    next
      case False
      then have "str_nat m = str_nat (m div 10) @ [digit_char (m mod 10)]"
        by (subst str_nat.simps) simp
      with n 1(2) have q: "str_nat (n div 10) = str_nat (m div 10)"
        and r: "digit_char (n mod 10) = digit_char (m mod 10)" by simp_all
      from q have "n div 10 = m div 10" by (rule 1(1) [OF big_n])
      moreover have "n mod 10 = m mod 10"
        using r by (intro digit_char_inj) simp_all
      ultimately show ?thesis by (metis div_mult_mod_eq)
    qed
  qed
qed

lemma str_int_no_separator: "CHR ''_'' \<notin> set (str_int i)"
  by (simp add: str_int_def str_nat_not_sign)

lemma str_int_inj: "str_int i = str_int j \<Longrightarrow> i = j"
proof -
  assume eq: "str_int i = str_int j"
  have no_minus: "\<And>n. hd (str_nat n) \<noteq> CHR ''-''"
  proof -
    fix n
    have "hd (str_nat n) \<in> set (str_nat n)" using str_nat_length [of n] by simp
    then show "hd (str_nat n) \<noteq> CHR ''-''" using str_nat_not_sign(2) [of n] by metis
  qed
  have nonempty: "\<And>n. str_nat n \<noteq> []" using str_nat_length by simp
  consider "i < 0" "j < 0" | "i < 0" "0 \<le> j" | "0 \<le> i" "j < 0" | "0 \<le> i" "0 \<le> j"
    by linarith
  then show ?thesis
  proof cases
    case 1
    with eq have "str_nat (nat (- i)) = str_nat (nat (- j))" by (simp add: str_int_def)
    then have "nat (- i) = nat (- j)" by (rule str_nat_inj)
    with 1 show ?thesis by simp
  next
    case 2
    with eq have "CHR ''-'' # str_nat (nat (- i)) = str_nat (nat j)" by (simp add: str_int_def)
    then have "hd (str_nat (nat j)) = CHR ''-''" by (metis list.sel(1))
    with no_minus show ?thesis by blast
  next
    case 3
    with eq have "str_nat (nat i) = CHR ''-'' # str_nat (nat (- j))" by (simp add: str_int_def)
    then have "hd (str_nat (nat i)) = CHR ''-''" by simp
    with no_minus show ?thesis by blast
  next
    case 4
    with eq have "str_nat (nat i) = str_nat (nat j)" by (simp add: str_int_def)
    then have "nat i = nat j" by (rule str_nat_inj)
    with 4 show ?thesis by simp
  qed
qed

lemma separator_unique:
  "c \<notin> set a \<Longrightarrow> c \<notin> set b \<Longrightarrow> a @ c # x = b @ c # y \<Longrightarrow> a = b \<and> x = y"
proof (induction a arbitrary: b)
  case Nil
  then show ?case by (cases b) auto
next
  case (Cons h a)
  then show ?case by (cases b) auto
qed

lemma path_join_relative_inj:
  assumes "hd x \<noteq> CHR ''/''" and "hd y \<noteq> CHR ''/''" and "path_join d x = path_join d y"
  shows "x = y"
  using assms by (simp add: path_join_def split: if_splits)

lemma stored_path_inj:
  "(stored_path temp_dir t1 n1 = stored_path temp_dir t2 n2)
     = (int_of_float t1 = int_of_float t2 \<and> n1 = n2)"
proof
  assume "stored_path temp_dir t1 n1 = stored_path temp_dir t2 n2"
  then have "''print_'' @ str_int (int_of_float t1) @ ''_'' @ n1
             = ''print_'' @ str_int (int_of_float t2) @ ''_'' @ n2"
    unfolding stored_path_def by (rule path_join_relative_inj [rotated 2]) simp_all
  then have eq: "str_int (int_of_float t1) @ CHR ''_'' # n1
                 = str_int (int_of_float t2) @ CHR ''_'' # n2" by simp
  have "str_int (int_of_float t1) = str_int (int_of_float t2) \<and> n1 = n2"
    using str_int_no_separator str_int_no_separator eq by (rule separator_unique)
  then show "int_of_float t1 = int_of_float t2 \<and> n1 = n2"
    using str_int_inj by blast
next
  assume "int_of_float t1 = int_of_float t2 \<and> n1 = n2"
  then show "stored_path temp_dir t1 n1 = stored_path temp_dir t2 n2"
    by (simp add: stored_path_def)
qed

text \<open>
  Claim C3, as the code has it. The stored path of an upload is made of the scratch
  directory, the whole seconds of the clock and the original filename, and of nothing else:
  two successful uploads get the same stored path exactly when they arrive within the same
  whole second under the same filename.
\<close>

theorem stored_paths_equal_iff:
  assumes "request1 ''file'' = Some file1" and "filename file1 \<noteq> []"
    and "request2 ''file'' = Some file2" and "filename file2 \<noteq> []"
  shows "current_file (snd (receive_file temp_dir t1 None request1 k1))
           = Some (stored_path temp_dir t1 (filename file1))
       \<and> current_file (snd (receive_file temp_dir t2 None request2 k2))
           = Some (stored_path temp_dir t2 (filename file2))
       \<and> ((current_file (snd (receive_file temp_dir t1 None request1 k1))
             = current_file (snd (receive_file temp_dir t2 None request2 k2)))
            = (int_of_float t1 = int_of_float t2 \<and> filename file1 = filename file2))"
  using assms by (simp add: receive_file_def Let_def stored_path_inj)

theorem stored_paths_equal_iff_witness:
  "current_file (snd (receive_file ''/tmp'' (1002 / 10) None
       [''file'' \<mapsto> \<lparr>filename = ''doc.pdf'', content = ''abc''\<rparr>] (init Map.empty)))
   \<noteq> current_file (snd (receive_file ''/tmp'' (1017 / 10) None
       [''file'' \<mapsto> \<lparr>filename = ''doc.pdf'', content = ''xyz''\<rparr>] (init Map.empty)))"
  using stored_paths_equal_iff [of
      "[''file'' \<mapsto> \<lparr>filename = ''doc.pdf'', content = ''abc''\<rparr>]"
      "\<lparr>filename = ''doc.pdf'', content = ''abc''\<rparr>"
      "[''file'' \<mapsto> \<lparr>filename = ''doc.pdf'', content = ''xyz''\<rparr>]"
      "\<lparr>filename = ''doc.pdf'', content = ''xyz''\<rparr>"
      "''/tmp''" "1002 / 10" "init Map.empty" "1017 / 10" "init Map.empty"]
  by (simp add: int_of_float_def receive_file_def Let_def)

text \<open>
  The claim as stated fails for two uploads of \<open>doc.pdf\<close> at 100.2 and 100.7 seconds:
  both are answered with success, both get the path \<open>/tmp/print_100_doc.pdf\<close>, and the
  second has overwritten what the first stored there.
\<close>

theorem stored_paths_equal_iff_counterexample:
  "fst (receive_file ''/tmp'' (1002 / 10) None
          [''file'' \<mapsto> \<lparr>filename = ''doc.pdf'', content = ''abc''\<rparr>] (init Map.empty))
     = (Success ''File received'' ''doc.pdf'', 200)
   \<and> current_file (snd (receive_file ''/tmp'' (1002 / 10) None
          [''file'' \<mapsto> \<lparr>filename = ''doc.pdf'', content = ''abc''\<rparr>] (init Map.empty)))
     = Some ''/tmp/print_100_doc.pdf''
   \<and> fst (receive_file ''/tmp'' (1007 / 10) None
          [''file'' \<mapsto> \<lparr>filename = ''doc.pdf'', content = ''xyz''\<rparr>]
          (snd (receive_file ''/tmp'' (1002 / 10) None
             [''file'' \<mapsto> \<lparr>filename = ''doc.pdf'', content = ''abc''\<rparr>] (init Map.empty))))
     = (Success ''File received'' ''doc.pdf'', 200)
   \<and> current_file (snd (receive_file ''/tmp'' (1007 / 10) None
          [''file'' \<mapsto> \<lparr>filename = ''doc.pdf'', content = ''xyz''\<rparr>]
          (snd (receive_file ''/tmp'' (1002 / 10) None
             [''file'' \<mapsto> \<lparr>filename = ''doc.pdf'', content = ''abc''\<rparr>] (init Map.empty)))))
     = Some ''/tmp/print_100_doc.pdf''
   \<and> files (snd (receive_file ''/tmp'' (1007 / 10) None
          [''file'' \<mapsto> \<lparr>filename = ''doc.pdf'', content = ''xyz''\<rparr>]
          (snd (receive_file ''/tmp'' (1002 / 10) None
             [''file'' \<mapsto> \<lparr>filename = ''doc.pdf'', content = ''abc''\<rparr>] (init Map.empty)))))
       ''/tmp/print_100_doc.pdf''
     = Some ''xyz''"
  by (simp add: receive_file_def init_def stored_path_def path_join_def Let_def
      int_of_float_def str_int_def str_nat.simps digit_char_def)

subsection \<open>Removal of stored files\<close>

text \<open>
  Claim C8, as the code has it. \<open>receive_file\<close> removes no file, whatever it is given, and
  \<open>cleanup\<close> removes at most the file of the active document; so a stored file goes away
  only at shutdown, and only when it is the last one received.
\<close>

theorem only_active_file_removed:
  "dom (files k) \<subseteq> dom (files (snd (receive_file temp_dir now save_error request_files k)))
   \<and> dom (files (cleanup removed k))
       = dom (files k) - {p. removed \<and> current_file k = Some p \<and> p \<noteq> []}"
proof
  show "dom (files k) \<subseteq> dom (files (snd (receive_file temp_dir now save_error request_files k)))"
    by (auto simp add: receive_file_def Let_def split: option.splits)
next
  show "dom (files (cleanup removed k))
       = dom (files k) - {p. removed \<and> current_file k = Some p \<and> p \<noteq> []}"
    by (auto simp add: cleanup_def split: option.splits if_splits)
qed

theorem only_active_file_removed_witness:
  "dom (files (cleanup True
      (snd (receive_file ''/tmp'' 100 None
              [''file'' \<mapsto> \<lparr>filename = ''a.pdf'', content = ''abc''\<rparr>] (init Map.empty)))))
   = {}"
  using only_active_file_removed [of
      "snd (receive_file ''/tmp'' 100 None
              [''file'' \<mapsto> \<lparr>filename = ''a.pdf'', content = ''abc''\<rparr>] (init Map.empty))"
      "''/tmp''" 100 None Map.empty True]
  by (auto simp add: receive_file_def init_def stored_path_def path_join_def Let_def)

text \<open>
  The claim as stated fails when \<open>b.pdf\<close> is uploaded a minute after \<open>a.pdf\<close>: the file
  of the first upload is still there after the second one, and still there after
  \<open>cleanup\<close>, which removes the second.
\<close>

theorem only_active_file_removed_counterexample:
  "files (snd (receive_file ''/tmp'' 160 None
                 [''file'' \<mapsto> \<lparr>filename = ''b.pdf'', content = ''xyz''\<rparr>]
          (snd (receive_file ''/tmp'' 100 None
                 [''file'' \<mapsto> \<lparr>filename = ''a.pdf'', content = ''abc''\<rparr>] (init Map.empty)))))
     ''/tmp/print_100_a.pdf'' = Some ''abc''
   \<and> files (cleanup True
          (snd (receive_file ''/tmp'' 160 None
                 [''file'' \<mapsto> \<lparr>filename = ''b.pdf'', content = ''xyz''\<rparr>]
          (snd (receive_file ''/tmp'' 100 None
                 [''file'' \<mapsto> \<lparr>filename = ''a.pdf'', content = ''abc''\<rparr>] (init Map.empty))))))
     ''/tmp/print_100_a.pdf'' = Some ''abc''
   \<and> files (cleanup True
          (snd (receive_file ''/tmp'' 160 None
                 [''file'' \<mapsto> \<lparr>filename = ''b.pdf'', content = ''xyz''\<rparr>]
          (snd (receive_file ''/tmp'' 100 None
                 [''file'' \<mapsto> \<lparr>filename = ''a.pdf'', content = ''abc''\<rparr>] (init Map.empty))))))
     ''/tmp/print_160_b.pdf'' = None"
  by (simp add: receive_file_def cleanup_def init_def stored_path_def path_join_def Let_def
      int_of_float_def str_int_def str_nat.simps digit_char_def)

end
